theory Spec2Isabelle
  imports Main
begin

section \<open>The dark-mode hook of \<^verbatim>\<open>src/hooks/useDarkMode.ts\<close>\<close>

text \<open>
  The hook keeps one piece of React state, \<^verbatim>\<open>darkMode\<close>, and reconciles it with the
  persisted preference, the operating system's colour scheme and the class list of a DOM
  element. Every closure of the source is a function below that takes the state it reads
  and returns the state it leaves behind; \<^verbatim>\<open>setDarkMode\<close> is an update of the field
  \<open>darkMode\<close>.
\<close>

subsection \<open>JavaScript values\<close>

text \<open>
  The state is typed \<^verbatim>\<open>boolean | undefined\<close>, but \<^verbatim>\<open>useDarkMode\<close> passes what
  \<^verbatim>\<open>getStorage\<close> returns, a string, so the values are \<^verbatim>\<open>undefined\<close>, booleans and strings.
\<close>

datatype jsval = JUndefined | JBool bool | JStr string

text \<open>\<^verbatim>\<open>ToBoolean\<close>: what \<^verbatim>\<open>if (darkMode)\<close> and \<^verbatim>\<open>!d\<close> see.\<close>

fun truthy :: "jsval \<Rightarrow> bool" where
  "truthy JUndefined = False"
| "truthy (JBool b) = b"
| "truthy (JStr s) = (s \<noteq> [])"

text \<open>\<^verbatim>\<open>String(b)\<close> on a boolean.\<close>

definition js_String :: "bool \<Rightarrow> string" where
  "js_String b = (if b then ''true'' else ''false'')"

subsection \<open>Environment, configuration and state\<close>

text \<open>
  \<open>isServer\<close> is what \<^verbatim>\<open>isServerSide()\<close> returns and \<open>prefersDark\<close> is
  \<^verbatim>\<open>window.matchMedia("(prefers-color-scheme: dark)").matches\<close>.
\<close>

record env =
  isServer :: bool
  prefersDark :: bool

text \<open>
  The objects whose \<^verbatim>\<open>classList\<close> the hook can reach: the document root, any other
  element, and \<^verbatim>\<open>mockElement\<close>, whose \<^verbatim>\<open>add\<close> and \<^verbatim>\<open>remove\<close> are \<^verbatim>\<open>noop\<close>.
\<close>

datatype target = DocumentElement | HtmlElement nat | MockElement

text \<open>An absent field of \<^verbatim>\<open>DarkModeConfig\<close> is \<open>None\<close>.\<close>

record DarkModeConfig =
  classNameDark :: "string option"
  classNameLight :: "string option"
  element :: "target option"
  storageKey :: "string option"

definition darkModeKey :: string where
  "darkModeKey = ''darkMode''"

text \<open>The destructuring defaults of lines 33 to 38.\<close>

definition cfgDark :: "DarkModeConfig \<Rightarrow> string" where
  "cfgDark cfg = (case classNameDark cfg of None \<Rightarrow> ''dark'' | Some c \<Rightarrow> c)"

definition cfgLight :: "DarkModeConfig \<Rightarrow> string" where
  "cfgLight cfg = (case classNameLight cfg of None \<Rightarrow> ''light'' | Some c \<Rightarrow> c)"

definition cfgKey :: "DarkModeConfig \<Rightarrow> string" where
  "cfgKey cfg = (case storageKey cfg of None \<Rightarrow> darkModeKey | Some k \<Rightarrow> k)"

text \<open>
  The \<^verbatim>\<open>toggle\<close> closures the hook hands out: the empty function of the server branch
  (and of the initial media store), and the real one, which captures \<^verbatim>\<open>storageKey\<close>.
\<close>

datatype toggle_fn = NoopToggle | ModeToggle string

record hook_result =
  ret_value :: jsval
  ret_toggle :: toggle_fn

text \<open>
  \<open>darkMode\<close> and \<open>triggerOnce\<close> are the hook's \<^verbatim>\<open>useState\<close> and \<^verbatim>\<open>useRef\<close> cells,
  \<open>storage\<close> is the persistent key-value store, \<open>classes\<close> gives every element its class
  list in order, and \<open>isDark\<close> and \<open>storeToggle\<close> are the two fields of the
  \<^verbatim>\<open>useMediaStore\<close> cell.
\<close>

record state =
  darkMode :: jsval
  triggerOnce :: bool
  storage :: "string \<rightharpoonup> string"
  classes :: "target \<Rightarrow> string list"
  isDark :: jsval
  storeToggle :: toggle_fn

subsection \<open>The storage adapter\<close>

text \<open>
  Modelled from the spec: \<^verbatim>\<open>getStorage\<close> of \<^verbatim>\<open>~/lib/storage\<close> is not among the sources.
  The adapter reads one string under a key of the per-origin store and tolerates its
  absence; without a browser every storage operation short-circuits, here to
  \<^verbatim>\<open>undefined\<close>. The second argument of line 85 (\<^verbatim>\<open>noCache\<close>) has no counterpart: every
  read sees the store.
\<close>

definition getStorage :: "env \<Rightarrow> state \<Rightarrow> string \<Rightarrow> jsval" where
  "getStorage e s k =
     (if isServer e then JUndefined
      else case storage s k of None \<Rightarrow> JUndefined | Some v \<Rightarrow> JStr v)"

text \<open>
  Modelled from the spec: \<^verbatim>\<open>setStorage\<close> of \<^verbatim>\<open>~/lib/storage\<close> is not among the sources.
  It writes the string under the key; without a browser it is a no-op.
\<close>

definition setStorage :: "env \<Rightarrow> string \<Rightarrow> string \<Rightarrow> state \<Rightarrow> state" where
  "setStorage e k v s =
     (if isServer e then s else s\<lparr>storage := (storage s)(k \<mapsto> v)\<rparr>)"

text \<open>
  Modelled from the spec: \<^verbatim>\<open>delStorage\<close> of \<^verbatim>\<open>~/lib/storage\<close> is not among the sources.
  It deletes the key, present or not; without a browser it is a no-op.
\<close>

definition delStorage :: "env \<Rightarrow> string \<Rightarrow> state \<Rightarrow> state" where
  "delStorage e k s =
     (if isServer e then s else s\<lparr>storage := (storage s)(k := None)\<rparr>)"

subsection \<open>The reconciliation engine\<close>

text \<open>\<^verbatim>\<open>detector\<close>, lines 44 to 61.\<close>

definition detector :: "env \<Rightarrow> DarkModeConfig \<Rightarrow> jsval \<Rightarrow> state \<Rightarrow> state" where
  "detector e cfg initialState s =
     (let isClient = \<not> isServer e;
          presentedDarkMode =
            (if cfgKey cfg \<noteq> []
             then (if isClient then JUndefined else getStorage e s (cfgKey cfg))
             else JUndefined)
      in if presentedDarkMode \<noteq> JUndefined then
           (if presentedDarkMode = JStr ''true'' then s\<lparr>darkMode := JBool True\<rparr>
            else if presentedDarkMode = JStr ''false'' then s\<lparr>darkMode := JBool False\<rparr>
            else s)
         else if initialState = JUndefined \<and> isClient
           then s\<lparr>darkMode := JBool (prefersDark e)\<rparr>
         else s)"

text \<open>
  The media-query listener \<^verbatim>\<open>handler\<close>, lines 73 to 82; \<open>matches\<close> is \<^verbatim>\<open>e.matches\<close>.
\<close>

definition handler :: "env \<Rightarrow> DarkModeConfig \<Rightarrow> bool \<Rightarrow> state \<Rightarrow> state" where
  "handler e cfg matches s =
     (let storageValue = getStorage e s (cfgKey cfg);
          parseStorageValueAsBool = (storageValue = JStr ''true'');
          s1 = s\<lparr>darkMode := JBool matches\<rparr>
      in if parseStorageValueAsBool = matches then delStorage e (cfgKey cfg) s1 else s1)"

text \<open>\<^verbatim>\<open>storageHandler\<close>, lines 84 to 97.\<close>

definition storageHandler :: "env \<Rightarrow> DarkModeConfig \<Rightarrow> state \<Rightarrow> state" where
  "storageHandler e cfg s =
     (let storageValue = getStorage e s (cfgKey cfg)
      in if storageValue = JUndefined then s\<lparr>darkMode := JBool (prefersDark e)\<rparr>
         else if storageValue = JStr ''true'' then s\<lparr>darkMode := JBool True\<rparr>
         else if storageValue = JStr ''false'' then s\<lparr>darkMode := JBool False\<rparr>
         else s)"

text \<open>
  Modelled from the spec: \<^verbatim>\<open>useGetState\<close> is not among the sources; its getter returns
  the last-known Mode.
\<close>

definition getDarkMode :: "state \<Rightarrow> jsval" where
  "getDarkMode s = darkMode s"

text \<open>
  The \<^verbatim>\<open>beforeunload\<close> listener, lines 114 to 122 (the source calls it \<^verbatim>\<open>handler\<close> too).
  It takes no configuration: the key it deletes is the constant \<^verbatim>\<open>darkModeKey\<close>.
  \<^verbatim>\<open>===\<close> between the boolean and the state holds only for the same boolean.
\<close>

definition unloadHandler :: "env \<Rightarrow> state \<Rightarrow> state" where
  "unloadHandler e s =
     (if JBool (prefersDark e) = getDarkMode s then delStorage e darkModeKey s else s)"

text \<open>
  The returned \<^verbatim>\<open>toggle\<close>, lines 154 to 162, and the empty function of line 147.
\<close>

fun run_toggle :: "env \<Rightarrow> toggle_fn \<Rightarrow> state \<Rightarrow> state" where
  "run_toggle e NoopToggle s = s"
| "run_toggle e (ModeToggle key) s =
     (let d = darkMode s;
          s1 = (if key \<noteq> [] \<and> \<not> isServer e
                then setStorage e key (js_String (\<not> truthy d)) s else s)
      in s1\<lparr>darkMode := JBool (\<not> truthy d)\<rparr>)"

subsection \<open>The DOM reflector\<close>

text \<open>
  A \<^verbatim>\<open>DOMTokenList\<close> is an ordered set of tokens. \<^verbatim>\<open>add\<close> and \<^verbatim>\<open>remove\<close> throw a
  \<^verbatim>\<open>SyntaxError\<close> on the empty token and an \<^verbatim>\<open>InvalidCharacterError\<close> on a token with
  ASCII whitespace; on \<^verbatim>\<open>mockElement\<close> both are \<^verbatim>\<open>noop\<close>.
\<close>

datatype dom_error = SyntaxError | InvalidCharacterError

definition ascii_whitespace :: "char \<Rightarrow> bool" where
  "ascii_whitespace c = (c \<in> {CHR 0x09, CHR 0x0A, CHR 0x0C, CHR 0x0D, CHR 0x20})"

definition check_token :: "string \<Rightarrow> dom_error option" where
  "check_token t =
     (if t = [] then Some SyntaxError
      else if list_ex ascii_whitespace t then Some InvalidCharacterError
      else None)"

definition token_add :: "string \<Rightarrow> string list \<Rightarrow> string list" where
  "token_add t cl = (if t \<in> set cl then cl else cl @ [t])"

definition classList_remove ::
  "target \<Rightarrow> string \<Rightarrow> (target \<Rightarrow> string list) \<Rightarrow> dom_error + (target \<Rightarrow> string list)" where
  "classList_remove el t d =
     (if el = MockElement then Inr d
      else case check_token t of
             Some err \<Rightarrow> Inl err
           | None \<Rightarrow> Inr (d(el := removeAll t (d el))))"

definition classList_add ::
  "target \<Rightarrow> string \<Rightarrow> (target \<Rightarrow> string list) \<Rightarrow> dom_error + (target \<Rightarrow> string list)" where
  "classList_add el t d =
     (if el = MockElement then Inr d
      else case check_token t of
             Some err \<Rightarrow> Inl err
           | None \<Rightarrow> Inr (d(el := token_add t (d el))))"

text \<open>\<^verbatim>\<open>element || document.documentElement\<close>, line 135.\<close>

definition targetOf :: "DarkModeConfig \<Rightarrow> target" where
  "targetOf cfg = (case element cfg of None \<Rightarrow> DocumentElement | Some x \<Rightarrow> x)"

text \<open>
  The effect of lines 130 to 143; \<open>mode\<close> is the \<^verbatim>\<open>darkMode\<close> of the render that
  scheduled the effect.
\<close>

definition reflector ::
  "env \<Rightarrow> DarkModeConfig \<Rightarrow> jsval \<Rightarrow> (target \<Rightarrow> string list) \<Rightarrow> dom_error + (target \<Rightarrow> string list)" where
  "reflector e cfg mode d =
     (if isServer e \<or> mode = JUndefined then Inr d
      else
        (let el = targetOf cfg
         in if truthy mode then
              (case classList_remove el (cfgLight cfg) d of
                 Inl err \<Rightarrow> Inl err
               | Inr d1 \<Rightarrow> classList_add el (cfgDark cfg) d1)
            else
              (case classList_remove el (cfgDark cfg) d of
                 Inl err \<Rightarrow> Inl err
               | Inr d1 \<Rightarrow> classList_add el (cfgLight cfg) d1)))"

subsection \<open>Rendering and activation\<close>

text \<open>
  The body of \<^verbatim>\<open>useDarkModeInternal\<close> outside its effects: the latch of lines 62 to 66
  and the two \<^verbatim>\<open>return\<close>s of lines 145 to 163. A \<^verbatim>\<open>setDarkMode\<close> during the render makes
  React render again with the new state and the latch set, so the value handed out is
  the one \<^verbatim>\<open>detector\<close> left.
\<close>

definition render :: "env \<Rightarrow> DarkModeConfig \<Rightarrow> jsval \<Rightarrow> state \<Rightarrow> hook_result \<times> state" where
  "render e cfg initialState s =
     (let s1 = (if \<not> triggerOnce s
                then (detector e cfg initialState s)\<lparr>triggerOnce := True\<rparr> else s)
      in (if isServer e then \<lparr>ret_value = JBool False, ret_toggle = NoopToggle\<rparr>
          else \<lparr>ret_value = darkMode s1, ret_toggle = ModeToggle (cfgKey cfg)\<rparr>,
          s1))"

text \<open>
  The first render: \<^verbatim>\<open>useState(initialState)\<close> and \<^verbatim>\<open>useRef(false)\<close> create their
  cells, then the body runs. This is the first reconciliation pass.
\<close>

definition mount :: "env \<Rightarrow> DarkModeConfig \<Rightarrow> jsval \<Rightarrow> state \<Rightarrow> hook_result \<times> state" where
  "mount e cfg initialState s =
     render e cfg initialState (s\<lparr>darkMode := initialState, triggerOnce := False\<rparr>)"

text \<open>
  Activation of one consumer: the first render and, in a browser, the effects of the
  mount in their order, the \<^verbatim>\<open>detector\<close> effect of line 68 and the reflector of line
  130 (the two effects in between only register listeners). A server render runs no
  effect. The reflector sees the \<^verbatim>\<open>darkMode\<close> of the render.
\<close>

definition activate ::
  "env \<Rightarrow> DarkModeConfig \<Rightarrow> jsval \<Rightarrow> state \<Rightarrow> dom_error + (hook_result \<times> state)" where
  "activate e cfg initialState s =
     (let (r, s1) = mount e cfg initialState s
      in if isServer e then Inr (r, s1)
         else
           (let s2 = detector e cfg initialState s1
            in case reflector e cfg (darkMode s1) (classes s2) of
                 Inl err \<Rightarrow> Inl err
               | Inr d \<Rightarrow> Inr (r, s2\<lparr>classes := d\<rparr>)))"

text \<open>
  Modelled from the spec: \<^verbatim>\<open>isServerSide\<close> of \<^verbatim>\<open>~/lib/utils\<close> is not among the sources;
  it returns true iff no browser document is available, so \<^verbatim>\<open>globalThis.document\<close> of
  line 178 exists exactly where \<open>isServer\<close> is false. This is the configuration
  \<^verbatim>\<open>useDarkMode\<close> passes, lines 174 to 179.
\<close>

definition publicConfig :: "env \<Rightarrow> DarkModeConfig" where
  "publicConfig e =
     \<lparr>classNameDark = Some ''dark'', classNameLight = Some ''light'',
      element = Some (if isServer e then MockElement else DocumentElement),
      storageKey = Some darkModeKey\<rparr>"

text \<open>
  The public \<^verbatim>\<open>useDarkMode\<close>, lines 173 to 197, at its first render: the initial state
  is what \<^verbatim>\<open>getStorage(darkModeKey)\<close> returns, \<^verbatim>\<open>toggle\<close> is published during the render
  (the latch \<^verbatim>\<open>onceRef\<close>) and \<^verbatim>\<open>isDark\<close> by the effect of line 181.
\<close>

definition useDarkMode :: "env \<Rightarrow> state \<Rightarrow> dom_error + (hook_result \<times> state)" where
  "useDarkMode e s =
     (case activate e (publicConfig e) (getStorage e s darkModeKey) s of
        Inl err \<Rightarrow> Inl err
      | Inr (r, s1) \<Rightarrow>
          (let s2 = s1\<lparr>storeToggle := ret_toggle r\<rparr>;
               s3 = (if isServer e then s2 else s2\<lparr>isDark := ret_value r\<rparr>)
           in Inr (r, s3)))"

subsection \<open>Events after the mount\<close>

text \<open>
  What can happen to a mounted hook in a browser: a call of the returned \<^verbatim>\<open>toggle\<close>, a
  change of the OS preference to a new value, a \<^verbatim>\<open>storage\<close> event, a write or delete of
  a key by another tab, a run of the \<^verbatim>\<open>detector\<close> effect in a render whose
  \<^verbatim>\<open>initialState\<close> is the given value, and \<^verbatim>\<open>beforeunload\<close>.
\<close>

datatype event =
    Toggle
  | OsChange bool
  | StorageEvent
  | OtherTabWrite string "string option"
  | Redetect jsval
  | Unload

fun step :: "env \<Rightarrow> DarkModeConfig \<Rightarrow> event \<Rightarrow> state \<Rightarrow> state" where
  "step e cfg Toggle s = run_toggle e (ModeToggle (cfgKey cfg)) s"
| "step e cfg (OsChange m) s = handler e cfg m s"
| "step e cfg StorageEvent s = storageHandler e cfg s"
| "step e cfg (OtherTabWrite k v) s = s\<lparr>storage := (storage s)(k := v)\<rparr>"
| "step e cfg (Redetect i) s = detector e cfg i s"
| "step e cfg Unload s = unloadHandler e s"

fun env_after :: "env \<Rightarrow> event \<Rightarrow> env" where
  "env_after e (OsChange m) = e\<lparr>prefersDark := m\<rparr>"
| "env_after e _ = e"

fun run :: "env \<Rightarrow> DarkModeConfig \<Rightarrow> event list \<Rightarrow> state \<Rightarrow> state" where
  "run e cfg [] s = s"
| "run e cfg (ev # evs) s = run (env_after e ev) cfg evs (step e cfg ev s)"

text \<open>A page that has stored nothing and whose elements carry no class.\<close>

definition fresh :: state where
  "fresh = \<lparr>darkMode = JUndefined, triggerOnce = False, storage = Map.empty,
            classes = (\<lambda>_. []), isDark = JBool False, storeToggle = NoopToggle\<rparr>"

definition browser :: "bool \<Rightarrow> env" where
  "browser os = \<lparr>isServer = False, prefersDark = os\<rparr>"


definition defaults :: DarkModeConfig where
  "defaults = \<lparr>classNameDark = None, classNameLight = None, element = None, storageKey = None\<rparr>"

subsection \<open>Renders and effects after an event\<close>

text \<open>
  The effects of one render in a browser after \<^verbatim>\<open>darkMode\<close> changed: the effect of
  lines 68 to 70 runs \<^verbatim>\<open>detector\<close>, whose \<^verbatim>\<open>setDarkMode\<close> the next render sees, and the
  effect of lines 130 to 143 reflects the \<^verbatim>\<open>darkMode\<close> of this render.
\<close>

definition commit :: "env \<Rightarrow> DarkModeConfig \<Rightarrow> jsval \<Rightarrow> state \<Rightarrow> dom_error + state" where
  "commit e cfg initialState s =
     (let s1 = detector e cfg initialState s
      in case reflector e cfg (darkMode s) (classes s1) of
           Inl err \<Rightarrow> Inl err
         | Inr d \<Rightarrow> Inr (s1\<lparr>classes := d\<rparr>))"

text \<open>
  What React does once a listener or the toggle has returned; \<open>before\<close> is the
  \<^verbatim>\<open>darkMode\<close> the listener found. A \<^verbatim>\<open>darkMode\<close> equal to it causes no render. Otherwise
  the hook renders and its effects run; when \<^verbatim>\<open>detector\<close> changed \<^verbatim>\<open>darkMode\<close> once more
  the hook renders and runs its effects again. \<^verbatim>\<open>detector\<close> changes nothing the second
  time (lemma \<open>settle_fixed\<close>), so there is no third render.
\<close>

definition settle ::
  "env \<Rightarrow> DarkModeConfig \<Rightarrow> jsval \<Rightarrow> jsval \<Rightarrow> state \<Rightarrow> dom_error + state" where
  "settle e cfg initialState before s =
     (if darkMode s = before then Inr s
      else case commit e cfg initialState (snd (render e cfg initialState s)) of
             Inl err \<Rightarrow> Inl err
           | Inr s1 \<Rightarrow>
               if darkMode s1 = darkMode s then Inr s1
               else commit e cfg initialState (snd (render e cfg initialState s1)))"

text \<open>
  An event on a mounted hook, up to the state React comes to rest in; \<open>initialState\<close>
  is the argument of the renders that follow.
\<close>

definition dispatch ::
  "env \<Rightarrow> DarkModeConfig \<Rightarrow> jsval \<Rightarrow> event \<Rightarrow> state \<Rightarrow> dom_error + state" where
  "dispatch e cfg initialState ev s =
     settle (env_after e ev) cfg initialState (darkMode s) (step e cfg ev s)"

subsection \<open>The calls of the storage adapter during activation\<close>







subsection \<open>Properties as the specification words them\<close>

text \<open>
  Exactly one of the two configured class names is in a class list: the dark one
  under a truthy Mode, the light one otherwise.
\<close>

definition exclusive :: "DarkModeConfig \<Rightarrow> jsval \<Rightarrow> string list \<Rightarrow> bool" where
  "exclusive cfg mode cl =
     (if truthy mode then cfgDark cfg \<in> set cl \<and> cfgLight cfg \<notin> set cl
      else cfgLight cfg \<in> set cl \<and> cfgDark cfg \<notin> set cl)"

text \<open>What \<^verbatim>\<open>remove(off)\<close> followed by \<^verbatim>\<open>add(on)\<close> leaves of a class list.\<close>

definition swap_class :: "string \<Rightarrow> string \<Rightarrow> string list \<Rightarrow> string list" where
  "swap_class off on cl = token_add on (removeAll off cl)"

section \<open>What the closures compute\<close>

lemma detector_client:
  "\<not> isServer e \<Longrightarrow>
     detector e cfg i s = (if i = JUndefined then s\<lparr>darkMode := JBool (prefersDark e)\<rparr> else s)"
  by (simp add: detector_def Let_def)


lemma mount_mode_client:
  "\<not> isServer e \<Longrightarrow>
     darkMode (snd (mount e cfg i s)) = (if i = JUndefined then JBool (prefersDark e) else i)"
  by (simp add: mount_def render_def detector_client Let_def)

lemma mount_client:
  "\<not> isServer e \<Longrightarrow> i \<noteq> JUndefined \<Longrightarrow>
     mount e cfg i s =
       (\<lparr>ret_value = i, ret_toggle = ModeToggle (cfgKey cfg)\<rparr>,
        s\<lparr>darkMode := i, triggerOnce := True\<rparr>)"
  by (simp add: mount_def render_def detector_client Let_def)


lemma unloadHandler_storage:
  "storage (unloadHandler e s) =
     (if \<not> isServer e \<and> darkMode s = JBool (prefersDark e)
      then (storage s)(darkModeKey := None) else storage s)"
  by (auto simp add: unloadHandler_def getDarkMode_def delStorage_def)

subsection \<open>The class list after the reflector\<close>

lemma swap_class_set: "set (swap_class off on cl) = insert on (set cl - {off})"
  by (auto simp add: swap_class_def token_add_def)

lemma swap_class_twice: "swap_class off on (swap_class off on cl) = swap_class off on cl"
  by (cases "off = on") (auto simp add: swap_class_def token_add_def)

lemma classList_swap:
  "el \<noteq> MockElement \<Longrightarrow> check_token off = None \<Longrightarrow> check_token on = None \<Longrightarrow>
     (case classList_remove el off d of Inl err \<Rightarrow> Inl err | Inr d1 \<Rightarrow> classList_add el on d1)
       = Inr (d(el := swap_class off on (d el)))"
  by (simp add: classList_remove_def classList_add_def swap_class_def)

lemma reflector_client:
  assumes "\<not> isServer e" "mode \<noteq> JUndefined" "targetOf cfg \<noteq> MockElement"
    "check_token (cfgDark cfg) = None" "check_token (cfgLight cfg) = None"
  shows "reflector e cfg mode d =
     Inr (d(targetOf cfg :=
        (if truthy mode then swap_class (cfgLight cfg) (cfgDark cfg) (d (targetOf cfg))
         else swap_class (cfgDark cfg) (cfgLight cfg) (d (targetOf cfg)))))"
  using assms by (simp add: reflector_def classList_swap Let_def)

subsection \<open>Activation in a browser with an initial value\<close>

lemma activate_client:
  "\<not> isServer e \<Longrightarrow> i \<noteq> JUndefined \<Longrightarrow>
     activate e cfg i s =
       (case reflector e cfg i (classes s) of
          Inl err \<Rightarrow> Inl err
        | Inr d \<Rightarrow> Inr (\<lparr>ret_value = i, ret_toggle = ModeToggle (cfgKey cfg)\<rparr>,
                     s\<lparr>darkMode := i, triggerOnce := True, classes := d\<rparr>))"
  by (simp add: activate_def mount_client detector_client Let_def)

lemma public_tokens:
  "check_token ''dark'' = None" "check_token ''light'' = None"
  by (simp_all add: check_token_def ascii_whitespace_def)

lemma publicConfig_fields:
  "\<not> isServer e \<Longrightarrow> targetOf (publicConfig e) = DocumentElement"
  "cfgDark (publicConfig e) = ''dark''" "cfgLight (publicConfig e) = ''light''"
  "cfgKey (publicConfig e) = darkModeKey"
  by (simp_all add: publicConfig_def targetOf_def cfgDark_def cfgLight_def cfgKey_def)

lemma useDarkMode_stored:
  assumes "\<not> isServer e" "storage s darkModeKey = Some v"
  shows "useDarkMode e s =
     Inr (\<lparr>ret_value = JStr v, ret_toggle = ModeToggle darkModeKey\<rparr>,
          s\<lparr>darkMode := JStr v, triggerOnce := True,
            classes := (classes s)(DocumentElement :=
               (if v \<noteq> [] then swap_class ''light'' ''dark'' (classes s DocumentElement)
                else swap_class ''dark'' ''light'' (classes s DocumentElement))),
            storeToggle := ModeToggle darkModeKey, isDark := JStr v\<rparr>)"
proof -
  have g: "getStorage e s darkModeKey = JStr v"
    using assms by (simp add: getStorage_def)
  have r: "reflector e (publicConfig e) (JStr v) (classes s) =
      Inr ((classes s)(DocumentElement :=
               (if v \<noteq> [] then swap_class ''light'' ''dark'' (classes s DocumentElement)
                else swap_class ''dark'' ''light'' (classes s DocumentElement))))"
    using assms(1)
    by (simp add: reflector_client publicConfig_fields public_tokens)
  have a: "activate e (publicConfig e) (JStr v) s =
      Inr (\<lparr>ret_value = JStr v, ret_toggle = ModeToggle darkModeKey\<rparr>,
           s\<lparr>darkMode := JStr v, triggerOnce := True,
             classes := (classes s)(DocumentElement :=
               (if v \<noteq> [] then swap_class ''light'' ''dark'' (classes s DocumentElement)
                else swap_class ''dark'' ''light'' (classes s DocumentElement)))\<rparr>)"
    using assms(1) by (simp add: activate_client r publicConfig_fields)
  show ?thesis
    using assms(1) by (simp add: useDarkMode_def g a Let_def)
qed

subsection \<open>Mode stays defined along a run of events\<close>

lemma step_defined:
  "\<not> isServer e \<Longrightarrow> darkMode s \<noteq> JUndefined \<Longrightarrow> darkMode (step e cfg ev s) \<noteq> JUndefined"
  by (cases ev)
     (auto simp add: Let_def setStorage_def handler_def delStorage_def storageHandler_def
        detector_client unloadHandler_def)

lemma env_after_isServer: "isServer (env_after e ev) = isServer e"
  by (cases ev) simp_all

lemma run_defined:
  "\<not> isServer e \<Longrightarrow> darkMode s \<noteq> JUndefined \<Longrightarrow> darkMode (run e cfg evs s) \<noteq> JUndefined"
proof (induction evs arbitrary: e s)
  case Nil
  then show ?case by simp
next
  case (Cons ev evs)
  have "\<not> isServer (env_after e ev)"
    using Cons.prems(1) by (simp add: env_after_isServer)
  moreover have "darkMode (step e cfg ev s) \<noteq> JUndefined"
    using Cons.prems by (rule step_defined)
  ultimately show ?case
    using Cons.IH by simp
qed

subsection \<open>The toggle and the storage listener, before the effects run\<close>

lemma run_toggle_immediate:
  "darkMode (run_toggle e (ModeToggle key) s) = JBool (\<not> truthy (darkMode s))
   \<and> (key \<noteq> [] \<and> \<not> isServer e \<longrightarrow>
        storage (run_toggle e (ModeToggle key) s) key = Some (js_String (\<not> truthy (darkMode s)))
        \<and> JBool (storage (run_toggle e (ModeToggle key) s) key = Some ''true'')
            = darkMode (run_toggle e (ModeToggle key) s))
   \<and> (\<not> isServer e \<and> triggerOnce s \<longrightarrow>
        ret_value (fst (render e cfg i'
            (run_toggle e (ret_toggle (fst (render e cfg i s))) (snd (render e cfg i s)))))
          = JBool (\<not> truthy (ret_value (fst (render e cfg i s)))))"
  by (simp add: Let_def setStorage_def render_def js_String_def)

lemma storageHandler_mode:
  "\<not> isServer e \<Longrightarrow>
     (storage s (cfgKey cfg) = None \<longrightarrow>
        darkMode (storageHandler e cfg s) = JBool (prefersDark e))
   \<and> (storage s (cfgKey cfg) = Some ''true'' \<longrightarrow>
        darkMode (storageHandler e cfg s) = JBool True)
   \<and> (storage s (cfgKey cfg) = Some ''false'' \<longrightarrow>
        darkMode (storageHandler e cfg s) = JBool False)
   \<and> (cfgKey cfg \<noteq> [] \<longrightarrow>
        darkMode (storageHandler e cfg (t\<lparr>storage := storage (step e cfg Toggle s)\<rparr>))
          = darkMode (step e cfg Toggle s))"
  by (auto simp add: storageHandler_def getStorage_def Let_def setStorage_def js_String_def)

subsection \<open>Where React comes to rest after an event\<close>

lemma detector_mode_only:
  "darkMode (detector e cfg i (s\<lparr>classes := d\<rparr>)) = darkMode (detector e cfg i s)"
  by (simp add: detector_def getStorage_def Let_def)

lemma detector_twice_mode:
  "darkMode (detector e cfg i (detector e cfg i s)) = darkMode (detector e cfg i s)"
  by (simp add: detector_def getStorage_def Let_def)

lemma render_mounted: "triggerOnce s \<Longrightarrow> snd (render e cfg i s) = s"
  by (simp add: render_def)

lemma commit_fixed:
  assumes "commit e cfg i s = Inr s'"
  shows "darkMode (detector e cfg i s') = darkMode s'"
proof -
  from assms obtain d where s': "s' = (detector e cfg i s)\<lparr>classes := d\<rparr>"
    by (auto simp add: commit_def Let_def split: sum.splits)
  show ?thesis
    by (simp add: s' detector_mode_only detector_twice_mode)
qed

lemma settle_fixed:
  assumes "darkMode s \<noteq> before" "settle e cfg i before s = Inr s'"
  shows "darkMode (detector e cfg i s') = darkMode s'"
  using assms
  by (auto simp add: settle_def commit_fixed split: sum.splits if_splits)

lemma toggle_changes: "darkMode (run_toggle e (ModeToggle k) s) \<noteq> darkMode s"
  by (cases "darkMode s") (auto simp add: Let_def)

text \<open>
  After a toggle in a browser the hook rests at the negation when the renders have an
  initial value, and at the OS preference when they have none.
\<close>

lemma dispatch_toggle_mode:
  assumes "\<not> isServer e" "triggerOnce s" "dispatch e cfg i Toggle s = Inr s'"
  shows "darkMode s' = (if i = JUndefined then JBool (prefersDark e)
                        else JBool (\<not> truthy (darkMode s)))"
proof -
  let ?t = "run_toggle e (ModeToggle (cfgKey cfg)) s"
  have t: "triggerOnce ?t"
    using assms(2) by (simp add: Let_def setStorage_def)
  have m: "darkMode ?t = JBool (\<not> truthy (darkMode s))"
    by (simp add: Let_def)
  have ch: "darkMode ?t \<noteq> darkMode s"
    by (rule toggle_changes)
  from assms(3) have st: "settle e cfg i (darkMode s) ?t = Inr s'"
    by (simp add: dispatch_def)
  show ?thesis
    using st ch assms(1) t m
    by (auto simp add: settle_def render_mounted commit_def detector_client Let_def
          split: sum.splits if_splits)
qed

text \<open>The same after a storage event that changed Mode.\<close>

lemma dispatch_storage_event_mode:
  assumes "\<not> isServer e" "triggerOnce s" "dispatch e cfg i StorageEvent s = Inr s'"
    "darkMode (storageHandler e cfg s) \<noteq> darkMode s"
  shows "darkMode s' = (if i = JUndefined then JBool (prefersDark e)
                        else darkMode (storageHandler e cfg s))"
proof -
  let ?t = "storageHandler e cfg s"
  have t: "triggerOnce ?t"
    using assms(2) by (simp add: storageHandler_def Let_def)
  from assms(3) have st: "settle e cfg i (darkMode s) ?t = Inr s'"
    by (simp add: dispatch_def)
  show ?thesis
    using st assms(4) assms(1) t
    by (auto simp add: settle_def render_mounted commit_def detector_client Let_def
          split: sum.splits if_splits)
qed

section \<open>The claims\<close>

subsection \<open>Reconciliation\<close>

text \<open>
  C1. The first reconciliation pass resolves Mode by the priority order: in a browser, a
  Stored Preference equal to \<^verbatim>\<open>"true"\<close> or \<^verbatim>\<open>"false"\<close> becomes the Mode, and the OS
  preference is consulted only when no initial value was given. The code does not do the
  first: in a browser, with \<^verbatim>\<open>"false"\<close> stored under the configured key, no initial
  value and an OS that prefers dark, the first pass leaves Mode \<^verbatim>\<open>true\<close>; with
  \<^verbatim>\<open>"true"\<close> stored and an OS that prefers light it leaves Mode \<^verbatim>\<open>false\<close>. The guard of
  line 47 hands \<^verbatim>\<open>detector\<close> the stored value only on the server.
\<close>

theorem first_pass_ignores_stored_preference:
  "getStorage (browser True) (fresh\<lparr>storage := [cfgKey defaults \<mapsto> ''false'']\<rparr>) (cfgKey defaults)
     = JStr ''false''
   \<and> darkMode (snd (mount (browser True) defaults JUndefined
        (fresh\<lparr>storage := [cfgKey defaults \<mapsto> ''false'']\<rparr>))) = JBool True
   \<and> darkMode (snd (mount (browser False) defaults JUndefined
        (fresh\<lparr>storage := [cfgKey defaults \<mapsto> ''true'']\<rparr>))) = JBool False"
  by (simp add: mount_def render_def detector_def getStorage_def Let_def browser_def fresh_def)




text \<open>
  C3. On unload, for every configured storage key, the Stored Preference under that key
  is deleted when the OS preference equals the last-known Mode. The code deletes under
  the constant \<^verbatim>\<open>darkModeKey\<close> instead: with the key \<^verbatim>\<open>"theme"\<close> configured, Mode and the
  OS preference both dark, the entry under \<^verbatim>\<open>"theme"\<close> stays and the one under
  \<^verbatim>\<open>"darkMode"\<close> goes.
\<close>

theorem unload_deletes_default_key:
  "cfgKey (defaults\<lparr>storageKey := Some ''theme''\<rparr>) = ''theme''
   \<and> storage (step (browser True) (defaults\<lparr>storageKey := Some ''theme''\<rparr>) Unload
        (fresh\<lparr>darkMode := JBool True,
               storage := [''theme'' \<mapsto> ''true'', ''darkMode'' \<mapsto> ''false'']\<rparr>)) ''theme''
       = Some ''true''
   \<and> storage (step (browser True) (defaults\<lparr>storageKey := Some ''theme''\<rparr>) Unload
        (fresh\<lparr>darkMode := JBool True,
               storage := [''theme'' \<mapsto> ''true'', ''darkMode'' \<mapsto> ''false'']\<rparr>)) ''darkMode''
       = None"
  by (simp add: unloadHandler_storage darkModeKey_def browser_def fresh_def defaults_def cfgKey_def)

text \<open>
  C4. After \<^verbatim>\<open>toggle()\<close> the value read is the negation of the value before, and with a
  storage key configured, in a browser, the stored string is \<^verbatim>\<open>String\<close> of the new
  value. The code does not keep this when the hook has no initial value: mounted in a
  browser whose OS prefers light, Mode is \<^verbatim>\<open>false\<close>; the toggle sets it to \<^verbatim>\<open>true\<close> and
  stores \<^verbatim>\<open>"true"\<close>; the effect of line 68 then runs \<^verbatim>\<open>detector\<close>, which skips the store
  in a browser and sets Mode to the OS preference. The hook rests with Mode \<^verbatim>\<open>false\<close>,
  \<^verbatim>\<open>"true"\<close> stored and the light class, and the next render hands out \<^verbatim>\<open>false\<close>.
\<close>

theorem toggle_reverts_to_os_preference:
  "snd (mount (browser False) defaults JUndefined fresh)
     = fresh\<lparr>darkMode := JBool False, triggerOnce := True\<rparr>
   \<and> run_toggle (browser False) (ModeToggle (cfgKey defaults))
        (fresh\<lparr>darkMode := JBool False, triggerOnce := True\<rparr>)
     = fresh\<lparr>darkMode := JBool True, triggerOnce := True,
             storage := [''darkMode'' \<mapsto> ''true'']\<rparr>
   \<and> dispatch (browser False) defaults JUndefined Toggle
        (fresh\<lparr>darkMode := JBool False, triggerOnce := True\<rparr>)
     = Inr (fresh\<lparr>darkMode := JBool False, triggerOnce := True,
                  storage := [''darkMode'' \<mapsto> ''true''],
                  classes := (classes fresh)(DocumentElement := [''light''])\<rparr>)
   \<and> ret_value (fst (render (browser False) defaults JUndefined
        (fresh\<lparr>darkMode := JBool False, triggerOnce := True,
               storage := [''darkMode'' \<mapsto> ''true''],
               classes := (classes fresh)(DocumentElement := [''light''])\<rparr>))) = JBool False"
  by (simp add: dispatch_def settle_def commit_def mount_def render_def detector_def reflector_def
        classList_remove_def classList_add_def check_token_def ascii_whitespace_def token_add_def
        targetOf_def cfgKey_def cfgDark_def cfgLight_def darkModeKey_def setStorage_def js_String_def
        browser_def defaults_def fresh_def Let_def)

text \<open>
  C5. In a browser, the listener of the OS preference sets Mode to the new OS value, and
  deletes the Stored Preference under the configured key exactly when the stored value
  parsed as a boolean (it is \<^verbatim>\<open>"true"\<close>, or it is anything else or absent) equals the new
  OS value; otherwise the store stays as it was.
\<close>

theorem os_change_merges_back:
  "\<not> isServer e \<Longrightarrow>
     darkMode (handler e cfg m s) = JBool m
     \<and> storage (handler e cfg m s) =
         (if (storage s (cfgKey cfg) = Some ''true'') = m
          then (storage s)(cfgKey cfg := None) else storage s)"
  by (auto simp add: handler_def getStorage_def delStorage_def Let_def split: option.splits)

theorem os_change_merges_back_witness:
  "\<not> isServer (browser False)
   \<and> darkMode (handler (browser False) defaults True
        (fresh\<lparr>storage := [''darkMode'' \<mapsto> ''true'']\<rparr>)) = JBool True
   \<and> storage (handler (browser False) defaults True
        (fresh\<lparr>storage := [''darkMode'' \<mapsto> ''true'']\<rparr>)) ''darkMode'' = None
   \<and> storage (handler (browser True) defaults False
        (fresh\<lparr>storage := [''darkMode'' \<mapsto> ''true'']\<rparr>)) ''darkMode'' = Some ''true''"
  using os_change_merges_back
    [of "browser False" defaults True "fresh\<lparr>storage := [''darkMode'' \<mapsto> ''true'']\<rparr>"]
    os_change_merges_back
    [of "browser True" defaults False "fresh\<lparr>storage := [''darkMode'' \<mapsto> ''true'']\<rparr>"]
  by (simp add: browser_def fresh_def defaults_def cfgKey_def darkModeKey_def)

text \<open>
  C6. On a storage event Mode follows the store, so that a toggle another tab persisted
  reaches this tab. The code does not keep this when the hook has no initial value:
  mounted in a browser whose OS prefers light, with Mode \<^verbatim>\<open>false\<close>, another tab stores
  \<^verbatim>\<open>"true"\<close> under the key; \<^verbatim>\<open>storageHandler\<close> sets Mode to \<^verbatim>\<open>true\<close>; the effect of line
  68 then runs \<^verbatim>\<open>detector\<close>, which skips the store in a browser and sets Mode to the OS
  preference. The hook rests with Mode \<^verbatim>\<open>false\<close> while \<^verbatim>\<open>"true"\<close> is stored.
\<close>

theorem storage_event_reverts_to_os_preference:
  "step (browser False) defaults (OtherTabWrite ''darkMode'' (Some ''true''))
        (fresh\<lparr>darkMode := JBool False, triggerOnce := True\<rparr>)
     = fresh\<lparr>darkMode := JBool False, triggerOnce := True,
             storage := [''darkMode'' \<mapsto> ''true'']\<rparr>
   \<and> storageHandler (browser False) defaults
        (fresh\<lparr>darkMode := JBool False, triggerOnce := True,
               storage := [''darkMode'' \<mapsto> ''true'']\<rparr>)
     = fresh\<lparr>darkMode := JBool True, triggerOnce := True,
             storage := [''darkMode'' \<mapsto> ''true'']\<rparr>
   \<and> dispatch (browser False) defaults JUndefined StorageEvent
        (fresh\<lparr>darkMode := JBool False, triggerOnce := True,
               storage := [''darkMode'' \<mapsto> ''true'']\<rparr>)
     = Inr (fresh\<lparr>darkMode := JBool False, triggerOnce := True,
                  storage := [''darkMode'' \<mapsto> ''true''],
                  classes := (classes fresh)(DocumentElement := [''light''])\<rparr>)"
  by (simp add: dispatch_def settle_def commit_def render_def detector_def reflector_def
        storageHandler_def getStorage_def
        classList_remove_def classList_add_def check_token_def ascii_whitespace_def token_add_def
        targetOf_def cfgKey_def cfgDark_def cfgLight_def darkModeKey_def
        browser_def defaults_def fresh_def Let_def)

text \<open>
  C7. In a browser, Mode is defined after the first reconciliation pass, whatever the
  initial value and the store, and it is defined after every run of later events:
  toggles, OS changes, storage events, writes of other tabs, further runs of
  \<^verbatim>\<open>detector\<close> and unload.
\<close>

theorem mode_stays_defined:
  "\<not> isServer e \<Longrightarrow>
     darkMode (snd (mount e cfg i s)) \<noteq> JUndefined
     \<and> darkMode (run e cfg evs (snd (mount e cfg i s))) \<noteq> JUndefined"
proof -
  assume c: "\<not> isServer e"
  have m: "darkMode (snd (mount e cfg i s)) \<noteq> JUndefined"
    using c by (simp add: mount_mode_client)
  from c m have "darkMode (run e cfg evs (snd (mount e cfg i s))) \<noteq> JUndefined"
    by (rule run_defined)
  with m show ?thesis by simp
qed

theorem mode_stays_defined_witness:
  "\<not> isServer (browser True)
   \<and> darkMode (snd (mount (browser True) defaults JUndefined fresh)) \<noteq> JUndefined
   \<and> darkMode (run (browser True) defaults
        [Toggle, OtherTabWrite ''darkMode'' None, StorageEvent, OsChange False, Redetect JUndefined]
        (snd (mount (browser True) defaults JUndefined fresh))) \<noteq> JUndefined"
  using mode_stays_defined
    [of "browser True" defaults JUndefined fresh
        "[Toggle, OtherTabWrite ''darkMode'' None, StorageEvent, OsChange False, Redetect JUndefined]"]
  by (simp add: browser_def)

text \<open>
  C8. \<^verbatim>\<open>detector\<close> is idempotent: with the environment, the configuration and the
  initial value fixed, running it twice leaves the state that running it once leaves.
  The run that the effect of line 68 adds after the first pass changes nothing, so the
  loop of that effect stops.
\<close>

theorem detector_idempotent:
  "detector e cfg i (detector e cfg i s) = detector e cfg i s
   \<and> detector e cfg i (snd (mount e cfg i s)) = snd (mount e cfg i s)"
  by (simp add: detector_def getStorage_def mount_def render_def Let_def)

theorem detector_idempotent_witness:
  "detector (browser True) defaults JUndefined (detector (browser True) defaults JUndefined fresh)
     = detector (browser True) defaults JUndefined fresh"
  using detector_idempotent [of "browser True" defaults JUndefined fresh]
  by simp

subsection \<open>The DOM reflector\<close>

text \<open>
  C9, as the specification has it: after every application of the reflector with a
  determined Mode the class list holds exactly one of the two configured names. With the
  same name configured for both, that name is in the list after the reflector ran, as
  the dark class and as the light class.
\<close>

theorem reflector_equal_names_counterexample:
  "reflector (browser False) (defaults\<lparr>classNameDark := Some ''x'', classNameLight := Some ''x''\<rparr>)
       (JBool True) (classes fresh)
     = Inr ((classes fresh)(DocumentElement := [''x'']))
   \<and> \<not> exclusive (defaults\<lparr>classNameDark := Some ''x'', classNameLight := Some ''x''\<rparr>)
         (JBool True) (((classes fresh)(DocumentElement := [''x''])) DocumentElement)"
  by (simp add: reflector_def browser_def defaults_def fresh_def cfgLight_def cfgDark_def
        targetOf_def classList_remove_def classList_add_def check_token_def
        ascii_whitespace_def exclusive_def token_add_def)

text \<open>
  C9, amended. In a browser, on a real element, when the two configured class names are
  two different valid tokens, every application of the reflector with a determined Mode
  completes and leaves exactly one of the two names in the element's class list, the
  dark one under a truthy Mode and the light one otherwise; applying it again with the
  same Mode changes nothing.
\<close>

theorem reflector_exclusive:
  assumes "\<not> isServer e" "mode \<noteq> JUndefined" "targetOf cfg \<noteq> MockElement"
    "check_token (cfgDark cfg) = None" "check_token (cfgLight cfg) = None"
    "cfgDark cfg \<noteq> cfgLight cfg"
  shows "\<exists>d'. reflector e cfg mode d = Inr d'
           \<and> exclusive cfg mode (d' (targetOf cfg))
           \<and> reflector e cfg mode d' = Inr d'"
proof -
  define d' where "d' = d(targetOf cfg :=
        (if truthy mode then swap_class (cfgLight cfg) (cfgDark cfg) (d (targetOf cfg))
         else swap_class (cfgDark cfg) (cfgLight cfg) (d (targetOf cfg))))"
  have 1: "reflector e cfg mode d = Inr d'"
    unfolding d'_def using assms(1-5) by (rule reflector_client)
  have 2: "exclusive cfg mode (d' (targetOf cfg))"
    using assms(6) by (simp add: d'_def exclusive_def swap_class_set)
  have "reflector e cfg mode d' = Inr (d'(targetOf cfg :=
        (if truthy mode then swap_class (cfgLight cfg) (cfgDark cfg) (d' (targetOf cfg))
         else swap_class (cfgDark cfg) (cfgLight cfg) (d' (targetOf cfg)))))"
    using assms(1-5) by (rule reflector_client)
  also have "\<dots> = Inr d'"
    by (simp add: d'_def swap_class_twice)
  finally have 3: "reflector e cfg mode d' = Inr d'" .
  from 1 2 3 show ?thesis by blast
qed

theorem reflector_exclusive_witness:
  "\<not> isServer (browser False) \<and> JBool False \<noteq> JUndefined
   \<and> targetOf defaults \<noteq> MockElement
   \<and> check_token (cfgDark defaults) = None \<and> check_token (cfgLight defaults) = None
   \<and> cfgDark defaults \<noteq> cfgLight defaults
   \<and> (\<exists>d'. reflector (browser False) defaults (JBool False)
              ((classes fresh)(DocumentElement := [''dark'', ''wide''])) = Inr d'
          \<and> exclusive defaults (JBool False) (d' (targetOf defaults))
          \<and> reflector (browser False) defaults (JBool False) d' = Inr d')"
proof -
  have h: "\<not> isServer (browser False)" "JBool False \<noteq> JUndefined"
    "targetOf defaults \<noteq> MockElement"
    "check_token (cfgDark defaults) = None" "check_token (cfgLight defaults) = None"
    "cfgDark defaults \<noteq> cfgLight defaults"
    by (simp_all add: browser_def targetOf_def defaults_def cfgDark_def cfgLight_def
          check_token_def ascii_whitespace_def)
  from h reflector_exclusive [OF h, of "(classes fresh)(DocumentElement := [''dark'', ''wide''])"]
  show ?thesis by simp
qed

subsection \<open>The public entry point\<close>

text \<open>
  C10. \<^verbatim>\<open>useDarkMode\<close> hands the stored string itself to the hook as initial state. In
  a browser with \<^verbatim>\<open>"false"\<close> stored under \<^verbatim>\<open>"darkMode"\<close>, the value first reported is
  that string, which is truthy; the result is the same under either OS preference; and
  the document root ends with the dark class and without the light class.
\<close>

theorem useDarkMode_raw_stored_string:
  assumes "\<not> isServer e" "storage s darkModeKey = Some ''false''"
  shows "\<exists>s'. useDarkMode e s =
            Inr (\<lparr>ret_value = JStr ''false'', ret_toggle = ModeToggle darkModeKey\<rparr>, s')
          \<and> truthy (JStr ''false'')
          \<and> darkMode s' = JStr ''false''
          \<and> ''dark'' \<in> set (classes s' DocumentElement)
          \<and> ''light'' \<notin> set (classes s' DocumentElement)
          \<and> useDarkMode (e\<lparr>prefersDark := os\<rparr>) s = useDarkMode e s"
proof -
  have c: "\<not> isServer (e\<lparr>prefersDark := os\<rparr>)"
    using assms(1) by simp
  have "useDarkMode (e\<lparr>prefersDark := os\<rparr>) s = useDarkMode e s"
    by (simp only: useDarkMode_stored [OF c assms(2)] useDarkMode_stored [OF assms])
  then show ?thesis
    by (simp add: useDarkMode_stored [OF assms] swap_class_set)
qed

theorem useDarkMode_raw_stored_string_witness:
  "\<not> isServer (browser False)
   \<and> storage (fresh\<lparr>storage := [''darkMode'' \<mapsto> ''false'']\<rparr>) darkModeKey = Some ''false''
   \<and> (\<exists>s'. useDarkMode (browser False) (fresh\<lparr>storage := [''darkMode'' \<mapsto> ''false'']\<rparr>) =
            Inr (\<lparr>ret_value = JStr ''false'', ret_toggle = ModeToggle darkModeKey\<rparr>, s')
          \<and> ''dark'' \<in> set (classes s' DocumentElement)
          \<and> ''light'' \<notin> set (classes s' DocumentElement))"
proof -
  have h: "\<not> isServer (browser False)"
    "storage (fresh\<lparr>storage := [''darkMode'' \<mapsto> ''false'']\<rparr>) darkModeKey = Some ''false''"
    by (simp_all add: browser_def darkModeKey_def)
  from h useDarkMode_raw_stored_string [OF h, of False]
  show ?thesis by blast
qed

end
